theory Spec2Isabelle
  imports Main
begin

section \<open>JavaScript strings and the regular expressions of the parser\<close>

text \<open>
  Strings are lists of characters. The regular expressions of
  \<^verbatim>\<open>git-repo-parser.ts\<close> use only literal text and the classes
  \<^verbatim>\<open>\w\<close>, \<^verbatim>\<open>[\w-]\<close>, \<^verbatim>\<open>[\w.-]\<close> and \<^verbatim>\<open>[a-f0-9]\<close>;
  each is written out as the function that the regular expression computes.
\<close>

fun startsWith :: "string \<Rightarrow> string \<Rightarrow> bool" where
  "startsWith s [] = True"
| "startsWith [] (p # ps) = False"
| "startsWith (c # cs) (p # ps) = (c = p \<and> startsWith cs ps)"

fun includes_str :: "string \<Rightarrow> string \<Rightarrow> bool" where
  "includes_str [] sub = (sub = [])"
| "includes_str (c # cs) sub = (startsWith (c # cs) sub \<or> includes_str cs sub)"

definition endsWith :: "string \<Rightarrow> string \<Rightarrow> bool" where
  "endsWith s suf = startsWith (rev s) (rev suf)"

text \<open>\<^verbatim>\<open>s.split(sep)\<close> for a one-character separator: never empty, \<^verbatim>\<open>"".split("/")\<close> is \<^verbatim>\<open>[""]\<close>.\<close>

fun split_str :: "string \<Rightarrow> char \<Rightarrow> string list" where
  "split_str [] sep = [[]]"
| "split_str (c # cs) sep =
     (if c = sep then [] # split_str cs sep
      else (case split_str cs sep of
              [] \<Rightarrow> [[c]]
            | x # xs \<Rightarrow> (c # x) # xs))"

definition is_digit :: "char \<Rightarrow> bool" where
  "is_digit c = (c \<in> set ''0123456789'')"

definition is_lower :: "char \<Rightarrow> bool" where
  "is_lower c = (c \<in> set ''abcdefghijklmnopqrstuvwxyz'')"

definition is_upper :: "char \<Rightarrow> bool" where
  "is_upper c = (c \<in> set ''ABCDEFGHIJKLMNOPQRSTUVWXYZ'')"

text \<open>\<^verbatim>\<open>\w\<close> is \<^verbatim>\<open>[A-Za-z0-9_]\<close>.\<close>

definition is_word_char :: "char \<Rightarrow> bool" where
  "is_word_char c = (is_lower c \<or> is_upper c \<or> is_digit c \<or> c = CHR ''_'')"

text \<open>\<^verbatim>\<open>[\w-]\<close>, the class of the first token of the shorthand pattern.\<close>

definition is_owner_char :: "char \<Rightarrow> bool" where
  "is_owner_char c = (is_word_char c \<or> c = CHR ''-'')"

text \<open>\<^verbatim>\<open>[\w.-]\<close>, the class of the second shorthand token and of a branch name.\<close>

definition is_name_char :: "char \<Rightarrow> bool" where
  "is_name_char c = (is_word_char c \<or> c = CHR ''.'' \<or> c = CHR ''-'')"

text \<open>\<^verbatim>\<open>[a-f0-9]\<close> under the flag \<^verbatim>\<open>i\<close>.\<close>

definition is_hex_char :: "char \<Rightarrow> bool" where
  "is_hex_char c = (c \<in> set ''abcdefABCDEF0123456789'')"

text \<open>Case folding of the flag \<^verbatim>\<open>i\<close>: only ASCII letters fold onto ASCII letters.\<close>

definition lower_char :: "char \<Rightarrow> char" where
  "lower_char c =
     (case map_of (zip ''ABCDEFGHIJKLMNOPQRSTUVWXYZ'' ''abcdefghijklmnopqrstuvwxyz'') c of
        None \<Rightarrow> c
      | Some l \<Rightarrow> l)"

text \<open>
  The schema's shorthand test \<^verbatim>\<open>/^[\w-]+\/[\w.-]+$/.test(url)\<close>. The first class does
  not contain the slash, so the greedy run of \<^verbatim>\<open>[\w-]\<close> is the only candidate for
  the first token.
\<close>

definition shorthand_test :: "string \<Rightarrow> bool" where
  "shorthand_test url =
     (takeWhile is_owner_char url \<noteq> [] \<and>
      (case dropWhile is_owner_char url of
         [] \<Rightarrow> False
       | c # r \<Rightarrow> c = CHR ''/'' \<and> r \<noteq> [] \<and> list_all is_name_char r))"

text \<open>
  \<^verbatim>\<open>url.match(BRANCH_PATTERN)\<close> with \<^verbatim>\<open>BRANCH_PATTERN = /\/tree\/([\w.-]+)/\<close>:
  the leftmost position where the literal is followed by at least one class
  character; the value is capture group 1, the longest run there.
\<close>

fun match_BRANCH_PATTERN :: "string \<Rightarrow> string option" where
  "match_BRANCH_PATTERN [] = None"
| "match_BRANCH_PATTERN (c # cs) =
     (if startsWith (c # cs) ''/tree/'' \<and> takeWhile is_name_char (drop 6 (c # cs)) \<noteq> []
      then Some (takeWhile is_name_char (drop 6 (c # cs)))
      else match_BRANCH_PATTERN cs)"

text \<open>
  \<^verbatim>\<open>url.match(COMMIT_PATTERN)\<close> with \<^verbatim>\<open>COMMIT_PATTERN = /\/commit\/([a-f0-9]+)/i\<close>:
  the flag \<^verbatim>\<open>i\<close> applies to the literal and to the class; the captured text
  keeps the case of the input.
\<close>

fun match_COMMIT_PATTERN :: "string \<Rightarrow> string option" where
  "match_COMMIT_PATTERN [] = None"
| "match_COMMIT_PATTERN (c # cs) =
     (if startsWith (map lower_char (c # cs)) ''/commit/'' \<and>
         takeWhile is_hex_char (drop 8 (c # cs)) \<noteq> []
      then Some (takeWhile is_hex_char (drop 8 (c # cs)))
      else match_COMMIT_PATTERN cs)"

text \<open>\<^verbatim>\<open>repo.replace(/\.git$/, "")\<close>: one trailing \<^verbatim>\<open>.git\<close> is removed.\<close>

definition replace_git_suffix :: "string \<Rightarrow> string" where
  "replace_git_suffix repo =
     (if endsWith repo ''.git'' then take (length repo - 4) repo else repo)"

text \<open>Decimal rendering of a number in a template string.\<close>

fun digit_char :: "nat \<Rightarrow> char" where
  "digit_char n = (''0123456789'' ! (n mod 10))"

function show_nat :: "nat \<Rightarrow> string" where
  "show_nat n = (if n < 10 then [digit_char n] else show_nat (n div 10) @ [digit_char n])"
  by pat_completeness auto
termination
  by (relation "measure (\<lambda>n. n)") auto

declare show_nat.simps [simp del]

section \<open>Data model\<close>

text \<open>The interfaces of \<^verbatim>\<open>git-repo-parser.ts\<close> and \<^verbatim>\<open>github-app-auth.ts\<close>.\<close>

datatype provider = github | gitlab | bitbucket

record GitRepoMetadata =
  owner :: string
  repo :: string
  branch :: "string option"
  commit :: "string option"
  provider :: provider
  isPrivate :: bool

record ParsedGitUrl =
  metadata :: GitRepoMetadata
  normalizedUrl :: string
  originalUrl :: string

record GitHubAppConfig =
  appId :: string
  privateKey :: string
  clientId :: string
  clientSecret :: string
  installationId :: "string option"

record ParseOptions =
  authToken :: "string option"
  githubApp :: "GitHubAppConfig option"

datatype auth_type = App | Installation

record AuthenticationResult =
  token :: string
  token_type :: auth_type
  expiresAt :: "string option"
  installationUrl :: "string option"

text \<open>
  A thrown value. Every constructor but \<open>NonError\<close> is an instance of the
  JavaScript class \<^verbatim>\<open>Error\<close> and carries its \<^verbatim>\<open>message\<close>.
\<close>

datatype thrown =
  Error string | ZodError string | TypeError string | RangeError string | SyntaxError string
  | NonError

fun is_Error :: "thrown \<Rightarrow> bool" where
  "is_Error NonError = False"
| "is_Error _ = True"

fun message :: "thrown \<Rightarrow> string" where
  "message (Error m) = m"
| "message (ZodError m) = m"
| "message (TypeError m) = m"
| "message (RangeError m) = m"
| "message (SyntaxError m) = m"
| "message NonError = []"

text \<open>Truthiness of a value of type \<^verbatim>\<open>string | null | undefined\<close>.\<close>

fun truthy :: "string option \<Rightarrow> bool" where
  "truthy None = False"
| "truthy (Some s) = (s \<noteq> [])"

section \<open>The platform\<close>

text \<open>
  \<^verbatim>\<open>parse\<close> calls four services that are not code of the repository: the
  \<^verbatim>\<open>URL\<close> constructor, the App authentication of \<^verbatim>\<open>@octokit/auth-app\<close>,
  \<^verbatim>\<open>fetch\<close>, and the conversion
  \<^verbatim>\<open>new Date(Number(h) * 1000).toISOString()\<close> of a header value. They are the
  fields of a record that every function below takes as its first argument, so that a
  theorem about every platform holds for the real one. The \<^verbatim>\<open>URL\<close> constructor
  throws nothing but a \<^verbatim>\<open>TypeError\<close> and \<^verbatim>\<open>toISOString\<close> nothing but a
  \<^verbatim>\<open>RangeError\<close>, so these two return \<open>None\<close> where they throw; the other two
  can throw any value and return it under \<open>Inl\<close>.
\<close>

record URL =
  hostname :: string
  pathname :: string

record request =
  req_url :: string
  req_headers :: "(string \<times> string) list"

record GitHubRepoResponse =
  repo_private :: bool

record Response =
  status :: nat
  statusText :: string
  resp_headers :: "string \<Rightarrow> string option"
  body_text :: string
  body_json :: "thrown + GitHubRepoResponse"

text \<open>\<^verbatim>\<open>response.ok\<close>: the status is in the range 200 to 299.\<close>

definition ok :: "Response \<Rightarrow> bool" where
  "ok response = (200 \<le> status response \<and> status response \<le> 299)"

record platform =
  newURL :: "string \<Rightarrow> URL option"
  appAuth :: "GitHubAppConfig \<Rightarrow> auth_type \<Rightarrow> thrown + string \<times> string option"
  fetch :: "request \<Rightarrow> thrown + Response"
  resetISO :: "string option \<Rightarrow> string option"

text \<open>What a call leaves behind: the console lines and the network calls, in order.\<close>

datatype log_entry = console_warn string | console_error string string

datatype net_call = AppAuthCall auth_type | FetchCall request

definition invalid_URL :: thrown where
  "invalid_URL = TypeError ''Invalid URL''"

definition invalid_time_value :: thrown where
  "invalid_time_value = RangeError ''Invalid time value''"

record effects =
  console :: "log_entry list"
  network :: "net_call list"

section \<open>\<^verbatim>\<open>git-repo-parser.ts\<close>: validation and normalization\<close>

text \<open>The predicate of \<^verbatim>\<open>gitUrlSchema\<close> (lines 39 to 55).\<close>

definition gitUrlSchema :: "platform \<Rightarrow> string \<Rightarrow> bool" where
  "gitUrlSchema P url =
     (if includes_str url ''://''
      then (case newURL P url of None \<Rightarrow> False | Some _ \<Rightarrow> True)
      else shorthand_test url)"

text \<open>
  \<^verbatim>\<open>PROVIDER_PATTERNS\<close> in the order of its keys. Each pattern is literal text
  with no anchor, so \<^verbatim>\<open>pattern.test(hostname)\<close> is a substring test.
\<close>

definition PROVIDER_PATTERNS :: "(provider \<times> string) list" where
  "PROVIDER_PATTERNS =
     [(github, ''github.com''), (gitlab, ''gitlab.com''), (bitbucket, ''bitbucket.org'')]"

definition detect_provider :: "string \<Rightarrow> provider" where
  "detect_provider host =
     (case find (\<lambda>(_, pattern). includes_str host pattern) PROVIDER_PATTERNS of
        Some (name, _) \<Rightarrow> name
      | None \<Rightarrow> github)"

definition missing_owner_or_repo :: thrown where
  "missing_owner_or_repo = Error ''Invalid repository URL: missing owner or repository name''"

text \<open>
  Lines 71 to 107 of \<^verbatim>\<open>parse\<close>, and the object of lines 202 to 213 with
  \<open>isPrivate\<close> at its initial value \<open>False\<close> (line 110). The parameter
  \<^verbatim>\<open>url\<close> is reassigned at line 76; \<open>input\<close> is its value at entry and
  \<open>expand_shorthand input\<close> its value from line 77 on.
\<close>

definition expand_shorthand :: "string \<Rightarrow> string" where
  "expand_shorthand input =
     (if \<not> includes_str input ''://'' then ''https://github.com/'' @ input else input)"

definition invalid_format :: thrown where
  "invalid_format = ZodError ''Invalid Git repository URL format''"

definition url_normalize :: "platform \<Rightarrow> string \<Rightarrow> thrown + ParsedGitUrl" where
  "url_normalize P input =
     (if \<not> gitUrlSchema P input then Inl invalid_format
      else
        let url = expand_shorthand input
        in (case newURL P url of
              None \<Rightarrow> Inl invalid_URL
            | Some urlObj \<Rightarrow>
                (case filter (\<lambda>s. s \<noteq> []) (split_str (pathname urlObj) CHR ''/'') of
                   ow # rp # _ \<Rightarrow>
                     if replace_git_suffix rp = [] then Inl missing_owner_or_repo
                     else Inr \<lparr>metadata =
                                 \<lparr>owner = ow,
                                  repo = replace_git_suffix rp,
                                  branch = match_BRANCH_PATTERN url,
                                  commit = match_COMMIT_PATTERN url,
                                  provider = detect_provider (hostname urlObj),
                                  isPrivate = False\<rparr>,
                               normalizedUrl =
                                 ''https://'' @ hostname urlObj @ ''/'' @ ow @ ''/'' @
                                 replace_git_suffix rp,
                               originalUrl = url\<rparr>
                 | _ \<Rightarrow> Inl missing_owner_or_repo)))"


section \<open>\<^verbatim>\<open>github-app-auth.ts\<close>\<close>

definition GITHUB_APP_INSTALLATION_URL :: string where
  "GITHUB_APP_INSTALLATION_URL = ''https://github.com/apps/your-app-name/installations/new''"

text \<open>
  \<^verbatim>\<open>getAuthenticationToken\<close> (lines 27 to 59). \<^verbatim>\<open>!this.config.installationId\<close>
  holds for a missing and for an empty identifier.
\<close>

definition getAuthenticationToken :: "platform \<Rightarrow> GitHubAppConfig \<Rightarrow> thrown + AuthenticationResult"
  where
  "getAuthenticationToken P config =
     (case (if \<not> truthy (installationId config)
            then (case appAuth P config App of
                    Inl e \<Rightarrow> Inl e
                  | Inr (tok, expires) \<Rightarrow>
                      Inr \<lparr>token = tok, token_type = App, expiresAt = expires,
                           installationUrl = Some GITHUB_APP_INSTALLATION_URL\<rparr>)
            else (case appAuth P config Installation of
                    Inl e \<Rightarrow> Inl e
                  | Inr (tok, expires) \<Rightarrow>
                      Inr \<lparr>token = tok, token_type = Installation, expiresAt = expires,
                           installationUrl = None\<rparr>)) of
        Inr result \<Rightarrow> Inr result
      | Inl error \<Rightarrow>
          if is_Error error
          then Inl (Error (''GitHub App authentication failed: '' @ message error))
          else Inl error)"

section \<open>\<^verbatim>\<open>git-repo-parser.ts\<close>: authentication and the metadata request\<close>

definition installation_required :: thrown where
  "installation_required = Error ''GitHub App installation required''"

definition invalid_token_format :: thrown where
  "invalid_token_format =
     Error ''Invalid GitHub token format. Token should be a GitHub Personal Access Token.''"

text \<open>
  Lines 119 to 143: the value of the \<^verbatim>\<open>Authorization\<close> header, or what is thrown
  towards the \<^verbatim>\<open>catch\<close> of line 185. The inner \<^verbatim>\<open>try\<close> of lines 121 to 132
  throws \<open>installation_required\<close> inside itself, so its own \<^verbatim>\<open>catch\<close> sees it and
  throws it again. \<^verbatim>\<open>options.authToken\<close> is tested for truthiness, so an empty
  token is no token.
\<close>

definition authorize :: "platform \<Rightarrow> ParseOptions \<Rightarrow> (thrown + string option) \<times> net_call list"
  where
  "authorize P options =
     (case githubApp options of
        Some config \<Rightarrow>
          ((case (case getAuthenticationToken P config of
                    Inl e \<Rightarrow> Inl e
                  | Inr authResult \<Rightarrow>
                      if token_type authResult = App \<and> truthy (installationUrl authResult)
                      then Inl installation_required
                      else Inr (Some (''Bearer '' @ token authResult))) of
              Inr header \<Rightarrow> Inr header
            | Inl error \<Rightarrow>
                if is_Error error \<and> message error = ''GitHub App installation required''
                then Inl error
                else Inl (Error (''GitHub App authentication failed: '' @
                                 (if is_Error error then message error
                                  else ''Unknown error'')))),
           [AppAuthCall (if \<not> truthy (installationId config) then App else Installation)])
      | None \<Rightarrow>
          (case authToken options of
             None \<Rightarrow> (Inr None, [])
           | Some tok \<Rightarrow>
               if tok = [] then (Inr None, [])
               else if \<not> startsWith tok ''ghp_'' \<and> \<not> startsWith tok ''github_pat_''
               then (Inl invalid_token_format, [])
               else (Inr (Some (''Bearer '' @ tok)), [])))"

text \<open>
  Lines 149 to 181: what a response makes \<^verbatim>\<open>parse\<close> throw. The object
  \<^verbatim>\<open>errorInfo\<close> is built first (lines 156 to 168) and is used nowhere, but building
  it converts the reset header when both headers are truthy, and the conversion can
  throw. \<open>Inr ()\<close> is a response that passes.
\<close>

definition checkResponse :: "platform \<Rightarrow> string \<Rightarrow> string \<Rightarrow> Response \<Rightarrow> thrown + unit" where
  "checkResponse P ow cleanRepo response =
     (let rateLimitRemaining = resp_headers response ''x-ratelimit-remaining'';
          rateLimitReset = resp_headers response ''x-ratelimit-reset''
      in if ok response then Inr ()
         else (case (if truthy rateLimitRemaining \<and> truthy rateLimitReset
                     then (case resetISO P rateLimitReset of
                             None \<Rightarrow> Inl invalid_time_value
                           | Some _ \<Rightarrow> Inr ())
                     else Inr ()) of
                 Inl e \<Rightarrow> Inl e
               | Inr _ \<Rightarrow>
                   if status response = 404
                   then Inl (Error (''Repository not found: '' @ ow @ ''/'' @ cleanRepo))
                   else if status response = 403 \<and> rateLimitRemaining = Some ''0''
                   then (case resetISO P rateLimitReset of
                           None \<Rightarrow> Inl invalid_time_value
                         | Some resetAt \<Rightarrow>
                             Inl (Error (''GitHub API rate limit exceeded. Reset at '' @
                                         resetAt)))
                   else Inl (Error (''GitHub API Error: '' @ show_nat (status response) @
                                    '' - '' @ body_text response))))"

definition metadata_request :: "string \<Rightarrow> string \<Rightarrow> string option \<Rightarrow> request" where
  "metadata_request ow cleanRepo authorization =
     \<lparr>req_url = ''https://api.github.com/repos/'' @ ow @ ''/'' @ cleanRepo,
      req_headers =
        (''Accept'', ''application/vnd.github.v3+json'') #
        (case authorization of None \<Rightarrow> [] | Some v \<Rightarrow> [(''Authorization'', v)])\<rparr>"

text \<open>
  The body of the \<^verbatim>\<open>try\<close> of lines 114 to 184: the value of
  \<^verbatim>\<open>repoData.private\<close>, or what is thrown, and the network calls made.
\<close>

definition fetchMetadata ::
  "platform \<Rightarrow> string \<Rightarrow> string \<Rightarrow> ParseOptions \<Rightarrow> (thrown + bool) \<times> net_call list" where
  "fetchMetadata P ow cleanRepo options =
     (case authorize P options of
        (Inl e, calls) \<Rightarrow> (Inl e, calls)
      | (Inr authorization, calls) \<Rightarrow>
          (case fetch P (metadata_request ow cleanRepo authorization) of
             Inl e \<Rightarrow> (Inl e, calls @ [FetchCall (metadata_request ow cleanRepo authorization)])
           | Inr response \<Rightarrow>
               ((case checkResponse P ow cleanRepo response of
                   Inl e \<Rightarrow> Inl e
                 | Inr _ \<Rightarrow>
                     (case body_json response of
                        Inl e \<Rightarrow> Inl e
                      | Inr repoData \<Rightarrow> Inr (repo_private repoData))),
                calls @ [FetchCall (metadata_request ow cleanRepo authorization)])))"

text \<open>
  The \<^verbatim>\<open>catch\<close> of lines 185 to 199: what it writes on the console. The stack
  trace that \<^verbatim>\<open>console.error\<close> receives is left out.
\<close>

definition catch_console :: "thrown \<Rightarrow> log_entry list" where
  "catch_console error =
     (if is_Error error
      then (if includes_str (message error) ''rate limit exceeded''
            then [console_warn (message error)]
            else [console_error ''Failed to fetch repository metadata:'' (message error)])
      else [])"

text \<open>
  \<^verbatim>\<open>GitRepoParser.parse\<close>: \<open>Inl\<close> is a rejected promise, \<open>Inr\<close> the resolved
  value.
\<close>

definition parse :: "platform \<Rightarrow> string \<Rightarrow> ParseOptions \<Rightarrow> (thrown + ParsedGitUrl) \<times> effects"
  where
  "parse P input options =
     (case url_normalize P input of
        Inl e \<Rightarrow> (Inl e, \<lparr>console = [], network = []\<rparr>)
      | Inr r \<Rightarrow>
          if provider (metadata r) = github
          then (case fetchMetadata P (owner (metadata r)) (repo (metadata r)) options of
                  (Inr priv, calls) \<Rightarrow>
                    (Inr (r\<lparr>metadata := (metadata r)\<lparr>isPrivate := priv\<rparr>\<rparr>),
                     \<lparr>console = [], network = calls\<rparr>)
                | (Inl error, calls) \<Rightarrow>
                    (Inr (r\<lparr>metadata := (metadata r)\<lparr>isPrivate := False\<rparr>\<rparr>),
                     \<lparr>console = catch_console error, network = calls\<rparr>))
          else (Inr r, \<lparr>console = [], network = []\<rparr>))"

text \<open>\<^verbatim>\<open>GitRepoParser.validate\<close>: the \<^verbatim>\<open>success\<close> field of \<^verbatim>\<open>safeParse\<close>.\<close>

definition validate :: "platform \<Rightarrow> string \<Rightarrow> bool" where
  "validate P url = gitUrlSchema P url"

section \<open>A platform for concrete runs\<close>

text \<open>
  Test doubles in the manner of \<^verbatim>\<open>git-repo-parser.spec.ts\<close>, which replaces
  \<^verbatim>\<open>fetch\<close> by a canned response. \<open>plain_URL\<close> reads a lower-case ASCII
  \<^verbatim>\<open>https://host/path\<close> or \<^verbatim>\<open>http://host/path\<close> string that has no user
  information, port, query, fragment, dot segment or character to escape, on which it
  agrees with the \<^verbatim>\<open>URL\<close> constructor; it rejects every other string.
\<close>

definition plain_URL :: "string \<Rightarrow> URL option" where
  "plain_URL s =
     (let rest = (if startsWith s ''https://'' then Some (drop 8 s)
                  else if startsWith s ''http://'' then Some (drop 7 s)
                  else None)
      in case rest of
           None \<Rightarrow> None
         | Some r \<Rightarrow>
             if takeWhile (\<lambda>c. c \<noteq> CHR ''/'') r = [] then None
             else Some \<lparr>hostname = takeWhile (\<lambda>c. c \<noteq> CHR ''/'') r,
                        pathname = (if dropWhile (\<lambda>c. c \<noteq> CHR ''/'') r = [] then ''/''
                                    else dropWhile (\<lambda>c. c \<noteq> CHR ''/'') r)\<rparr>)"

definition pad :: "nat \<Rightarrow> nat \<Rightarrow> string" where
  "pad width n = replicate (width - length (show_nat n)) CHR ''0'' @ show_nat n"

text \<open>
  \<^verbatim>\<open>new Date(ms).toISOString()\<close> for a time at or after the epoch: the days since
  the epoch become a date of the proleptic Gregorian calendar, counted in eras of 400
  years from 1 March of year 0.
\<close>

definition iso_of_ms :: "nat \<Rightarrow> string" where
  "iso_of_ms ms =
     (let tod = ms mod 86400000;
          z = ms div 86400000 + 719468;
          era = z div 146097;
          doe = z mod 146097;
          yoe = (doe - doe div 1460 + doe div 36524 - doe div 146096) div 365;
          doy = doe - (365 * yoe + yoe div 4 - yoe div 100);
          mp = (5 * doy + 2) div 153;
          d = doy - (153 * mp + 2) div 5 + 1;
          m = (if mp < 10 then mp + 3 else mp - 9);
          y = (if m \<le> 2 then yoe + era * 400 + 1 else yoe + era * 400)
      in (if y \<le> 9999 then pad 4 y else CHR ''+'' # pad 6 y) @ ''-'' @ pad 2 m @ ''-'' @
         pad 2 d @ ''T'' @ pad 2 (tod div 3600000) @ '':'' @ pad 2 (tod div 60000 mod 60) @
         '':'' @ pad 2 (tod div 1000 mod 60) @ ''.'' @ pad 3 (tod mod 1000) @ ''Z'')"

definition digit_value :: "char \<Rightarrow> nat" where
  "digit_value c = of_char c - 48"

definition decimal_value :: "string \<Rightarrow> nat" where
  "decimal_value s = foldl (\<lambda>a c. 10 * a + digit_value c) 0 s"

text \<open>
  \<^verbatim>\<open>new Date(Number(h) * 1000).toISOString()\<close> for a header that is absent
  (\<^verbatim>\<open>Number(null)\<close> is 0), made of decimal digits only, or one that has no numeric
  reading at all; a time beyond 8.64e15 milliseconds is not a valid time. Other
  spellings of a number (a sign, a fraction, an exponent, blanks) are not read.
\<close>

definition epoch_seconds_ISO :: "string option \<Rightarrow> string option" where
  "epoch_seconds_ISO h =
     (case h of
        None \<Rightarrow> Some (iso_of_ms 0)
      | Some s \<Rightarrow>
          if list_all is_digit s \<and> decimal_value s * 1000 \<le> 8640000000000000
          then Some (iso_of_ms (decimal_value s * 1000))
          else None)"

text \<open>
  The platform of a run in which the App authentication answers \<open>auth\<close> and
  \<^verbatim>\<open>fetch\<close> answers \<open>answer\<close>.
\<close>

definition test_platform ::
  "(thrown + string \<times> string option) \<Rightarrow> (thrown + Response) \<Rightarrow> platform" where
  "test_platform auth answer =
     \<lparr>newURL = plain_URL,
      appAuth = (\<lambda>config kind. auth),
      fetch = (\<lambda>req. answer),
      resetISO = epoch_seconds_ISO\<rparr>"

definition response_of ::
  "nat \<Rightarrow> string \<Rightarrow> (string \<times> string) list \<Rightarrow> string \<Rightarrow> thrown + GitHubRepoResponse \<Rightarrow> Response"
  where
  "response_of code reason hdrs body js =
     \<lparr>status = code, statusText = reason, resp_headers = map_of hdrs, body_text = body,
      body_json = js\<rparr>"

section \<open>Shared lemmas\<close>

text \<open>What a successful normalization says about its input, and the converse.\<close>

lemma url_normalize_InrD:
  assumes "url_normalize P input = Inr r"
  shows "\<exists>urlObj ow rp rest.
           gitUrlSchema P input \<and>
           newURL P (expand_shorthand input) = Some urlObj \<and>
           filter (\<lambda>s. s \<noteq> []) (split_str (pathname urlObj) CHR ''/'') = ow # rp # rest \<and>
           replace_git_suffix rp \<noteq> [] \<and>
           r = \<lparr>metadata =
                  \<lparr>owner = ow, repo = replace_git_suffix rp,
                   branch = match_BRANCH_PATTERN (expand_shorthand input),
                   commit = match_COMMIT_PATTERN (expand_shorthand input),
                   provider = detect_provider (hostname urlObj), isPrivate = False\<rparr>,
                normalizedUrl =
                  ''https://'' @ hostname urlObj @ ''/'' @ ow @ ''/'' @ replace_git_suffix rp,
                originalUrl = expand_shorthand input\<rparr>"
  using assms
  by (auto simp: url_normalize_def Let_def split: if_splits option.splits list.splits)

lemma url_normalize_InrI:
  assumes "gitUrlSchema P input"
    and "newURL P (expand_shorthand input) = Some urlObj"
    and "filter (\<lambda>s. s \<noteq> []) (split_str (pathname urlObj) CHR ''/'') = ow # rp # rest"
    and "replace_git_suffix rp \<noteq> []"
  shows "url_normalize P input =
         Inr \<lparr>metadata =
                  \<lparr>owner = ow, repo = replace_git_suffix rp,
                   branch = match_BRANCH_PATTERN (expand_shorthand input),
                   commit = match_COMMIT_PATTERN (expand_shorthand input),
                   provider = detect_provider (hostname urlObj), isPrivate = False\<rparr>,
                normalizedUrl =
                  ''https://'' @ hostname urlObj @ ''/'' @ ow @ ''/'' @ replace_git_suffix rp,
                originalUrl = expand_shorthand input\<rparr>"
  using assms by (simp add: url_normalize_def Let_def)

lemma url_normalize_fields:
  assumes "gitUrlSchema P input"
    and "newURL P (expand_shorthand input) = Some urlObj"
    and "filter (\<lambda>s. s \<noteq> []) (split_str (pathname urlObj) CHR ''/'') = ow # rp # rest"
    and "replace_git_suffix rp \<noteq> []"
  shows "\<exists>r. url_normalize P input = Inr r \<and>
             owner (metadata r) = ow \<and>
             repo (metadata r) = replace_git_suffix rp \<and>
             branch (metadata r) = match_BRANCH_PATTERN (expand_shorthand input) \<and>
             commit (metadata r) = match_COMMIT_PATTERN (expand_shorthand input) \<and>
             provider (metadata r) = detect_provider (hostname urlObj) \<and>
             normalizedUrl r =
               ''https://'' @ hostname urlObj @ ''/'' @ ow @ ''/'' @ replace_git_suffix rp"
  using url_normalize_InrI [OF assms] by simp

lemma url_normalize_not_private:
  assumes "url_normalize P input = Inr r"
  shows "r\<lparr>metadata := (metadata r)\<lparr>isPrivate := False\<rparr>\<rparr> = r"
  using url_normalize_InrD [OF assms] by auto

lemma parse_InrD:
  assumes "fst (parse P input options) = Inr r"
  shows "\<exists>r0. url_normalize P input = Inr r0 \<and>
              r = r0\<lparr>metadata := (metadata r0)\<lparr>isPrivate := isPrivate (metadata r)\<rparr>\<rparr>"
  using assms
  by (auto simp: parse_def split: sum.splits if_splits prod.splits)

text \<open>
  The \<^verbatim>\<open>catch\<close> of line 185 encloses the whole \<^verbatim>\<open>try\<close>: whatever is thrown
  there, \<^verbatim>\<open>parse\<close> resolves with the normalized reference.
\<close>

lemma parse_absorbs:
  assumes "url_normalize P input = Inr r"
    and "provider (metadata r) = github"
    and "fetchMetadata P (owner (metadata r)) (repo (metadata r)) options = (Inl e, calls)"
  shows "parse P input options = (Inr r, \<lparr>console = catch_console e, network = calls\<rparr>)"
  using assms url_normalize_not_private [OF assms(1)] by (simp add: parse_def)

lemma detect_provider_chain:
  "detect_provider h =
     (if includes_str h ''github.com'' then github
      else if includes_str h ''gitlab.com'' then gitlab
      else if includes_str h ''bitbucket.org'' then bitbucket
      else github)"
  by (simp add: detect_provider_def PROVIDER_PATTERNS_def)

lemma parse_resolves:
  assumes "url_normalize P input = Inr r"
  shows "\<exists>b. fst (parse P input options) = Inr (r\<lparr>metadata := (metadata r)\<lparr>isPrivate := b\<rparr>\<rparr>)"
proof (cases "provider (metadata r) = github")
  case True
  then show ?thesis
    using assms by (auto simp: parse_def split: sum.splits prod.splits)
next
  case False
  then have "fst (parse P input options) = Inr r"
    using assms by (simp add: parse_def)
  with url_normalize_not_private [OF assms] show ?thesis
    by metis
qed


lemma includes_str_absent:
  "c \<notin> set s \<Longrightarrow> \<not> includes_str s (c # rest)"
  by (induction s) auto

lemma split_str_no_sep:
  "sep \<notin> set s \<Longrightarrow> split_str s sep = [s]"
  by (induction s) auto

lemma name_char_simps:
  "\<not> is_name_char CHR ''/''" "\<not> is_name_char CHR '':''"
  "\<not> is_owner_char CHR ''/''" "\<not> is_hex_char CHR ''/''" "\<not> is_hex_char CHR '':''"
  "\<not> is_hex_char CHR ''t''"
  by (simp_all add: is_name_char_def is_owner_char_def is_word_char_def is_lower_def
        is_upper_def is_digit_def is_hex_char_def)

lemma hex_is_name_char: "is_hex_char c \<Longrightarrow> is_name_char c"
  by (auto simp: is_name_char_def is_word_char_def is_lower_def
        is_upper_def is_digit_def is_hex_char_def)


lemma takeWhile_all: "list_all Q s \<Longrightarrow> takeWhile Q s = s"
  by (simp add: list_all_iff)

lemma hex_no_git_suffix:
  assumes "list_all is_hex_char s"
  shows "replace_git_suffix s = s"
proof -
  have "\<not> endsWith s ''.git''"
  proof
    assume "endsWith s ''.git''"
    then obtain t where "rev s = CHR ''t'' # t"
      by (cases "rev s") (auto simp: endsWith_def)
    then have "CHR ''t'' \<in> set s"
      by (metis list.set_intros(1) set_rev)
    with assms show False
      by (auto simp: list_all_iff name_char_simps)
  qed
  then show ?thesis by (simp add: replace_git_suffix_def)
qed

lemma shorthand_tree:
  assumes "x \<noteq> []" and "list_all is_name_char x"
  shows "shorthand_test (''tree/'' @ x)"
  using assms
  by (simp add: shorthand_test_def is_owner_char_def is_word_char_def is_lower_def
        is_upper_def is_digit_def)

lemma shorthand_commit:
  assumes "x \<noteq> []" and "list_all is_name_char x"
  shows "shorthand_test (''commit/'' @ x)"
  using assms
  by (simp add: shorthand_test_def is_owner_char_def is_word_char_def is_lower_def
        is_upper_def is_digit_def)

lemma name_chars_no_scheme:
  assumes "list_all is_name_char x"
  shows "\<not> includes_str x ''://''"
proof -
  have "CHR '':'' \<notin> set x"
    using assms by (auto simp: list_all_iff name_char_simps)
  then show ?thesis by (rule includes_str_absent)
qed

lemma name_chars_one_segment:
  assumes "list_all is_name_char x"
  shows "split_str x CHR ''/'' = [x]"
proof -
  have "CHR ''/'' \<notin> set x"
    using assms by (auto simp: list_all_iff name_char_simps)
  then show ?thesis by (rule split_str_no_sep)
qed

lemma branch_of_tree:
  assumes "x \<noteq> []" and "list_all is_name_char x"
  shows "match_BRANCH_PATTERN (''https://github.com/tree/'' @ x) = Some x"
  using assms by (simp add: takeWhile_all)

lemma lower_char_simps:
  "lower_char CHR ''h'' = CHR ''h''" "lower_char CHR ''t'' = CHR ''t''"
  "lower_char CHR ''p'' = CHR ''p''" "lower_char CHR ''s'' = CHR ''s''"
  "lower_char CHR '':'' = CHR '':''" "lower_char CHR ''/'' = CHR ''/''"
  "lower_char CHR ''g'' = CHR ''g''" "lower_char CHR ''i'' = CHR ''i''"
  "lower_char CHR ''u'' = CHR ''u''" "lower_char CHR ''b'' = CHR ''b''"
  "lower_char CHR ''.'' = CHR ''.''" "lower_char CHR ''c'' = CHR ''c''"
  "lower_char CHR ''o'' = CHR ''o''" "lower_char CHR ''m'' = CHR ''m''"
  by (simp_all add: lower_char_def)

lemma commit_of_commit:
  assumes "h \<noteq> []" and "list_all is_hex_char h"
  shows "match_COMMIT_PATTERN (''https://github.com/commit/'' @ h) = Some h"
  using assms by (simp add: takeWhile_all lower_char_simps)


lemma ISO_example:
  "epoch_seconds_ISO (Some ''1700000000'') = Some ''2023-11-14T22:13:20.000Z''"
proof -
  have v: "decimal_value ''1700000000'' = 1700000000"
    by (simp add: decimal_value_def digit_value_def)
  have i: "iso_of_ms 1700000000000 = ''2023-11-14T22:13:20.000Z''"
    apply (simp add: iso_of_ms_def Let_def)
    apply (simp add: pad_def show_nat.simps)
    apply (simp add: numeral_2_eq_2 numeral_3_eq_3)
    done
  show ?thesis
    by (simp add: epoch_seconds_ISO_def is_digit_def v i)
qed


lemma checkResponse_throws:
  assumes "\<not> ok response"
  shows "\<exists>e. checkResponse P ow rp response = Inl e \<and> is_Error e"
  using assms
  by (auto simp: checkResponse_def Let_def invalid_time_value_def split: option.splits)

lemma parse_fetch_failure:
  assumes "url_normalize P input = Inr r"
    and "provider (metadata r) = github"
    and "authorize P options = (Inr authorization, calls)"
    and "fetch P (metadata_request (owner (metadata r)) (repo (metadata r)) authorization) =
           Inr response"
    and "checkResponse P (owner (metadata r)) (repo (metadata r)) response = Inl e"
  shows "parse P input options =
           (Inr r,
            \<lparr>console = catch_console e,
             network = calls @ [FetchCall (metadata_request (owner (metadata r))
                                             (repo (metadata r)) authorization)]\<rparr>)"
proof -
  have "fetchMetadata P (owner (metadata r)) (repo (metadata r)) options =
          (Inl e, calls @ [FetchCall (metadata_request (owner (metadata r))
                                             (repo (metadata r)) authorization)])"
    using assms(3-5) by (simp add: fetchMetadata_def)
  from parse_absorbs [OF assms(1,2) this] show ?thesis .
qed



lemma owner_is_name_char: "is_owner_char c \<Longrightarrow> is_name_char c"
  by (auto simp: is_owner_char_def is_name_char_def)

lemma shorthand_test_iff:
  "shorthand_test s \<longleftrightarrow>
     (\<exists>ow rp. s = ow @ ''/'' @ rp \<and> ow \<noteq> [] \<and> rp \<noteq> [] \<and>
              list_all is_owner_char ow \<and> list_all is_name_char rp)"
proof
  assume t: "shorthand_test s"
  then obtain c r where d: "dropWhile is_owner_char s = c # r"
    by (auto simp: shorthand_test_def split: list.splits)
  with t have c: "c = CHR ''/''" and r: "r \<noteq> []" "list_all is_name_char r"
    and o: "takeWhile is_owner_char s \<noteq> []"
    by (auto simp: shorthand_test_def)
  have "s = takeWhile is_owner_char s @ ''/'' @ r"
    using d c takeWhile_dropWhile_id [of is_owner_char s] by simp
  moreover have "list_all is_owner_char (takeWhile is_owner_char s)"
    by (auto simp: list_all_iff dest: set_takeWhileD)
  ultimately show "\<exists>ow rp. s = ow @ ''/'' @ rp \<and> ow \<noteq> [] \<and> rp \<noteq> [] \<and>
              list_all is_owner_char ow \<and> list_all is_name_char rp"
    using o r by blast
next
  assume "\<exists>ow rp. s = ow @ ''/'' @ rp \<and> ow \<noteq> [] \<and> rp \<noteq> [] \<and>
              list_all is_owner_char ow \<and> list_all is_name_char rp"
  then obtain ow rp where s: "s = ow @ CHR ''/'' # rp" and n: "ow \<noteq> []" "rp \<noteq> []"
    and a: "list_all is_owner_char ow" "list_all is_name_char rp"
    by auto
  have tw: "takeWhile is_owner_char s = ow"
    unfolding s using a(1) by (simp add: takeWhile_tail name_char_simps list_all_iff)
  have dw: "dropWhile is_owner_char s = CHR ''/'' # rp"
    unfolding s using a(1) by (simp add: dropWhile_append3 name_char_simps list_all_iff)
  show "shorthand_test s"
    using n a(2) by (simp add: shorthand_test_def tw dw)
qed

lemma shorthand_no_scheme:
  assumes "shorthand_test s"
  shows "\<not> includes_str s ''://''"
proof -
  from assms obtain ow rp where s: "s = ow @ ''/'' @ rp"
    and a: "list_all is_owner_char ow" "list_all is_name_char rp"
    unfolding shorthand_test_iff by blast
  have "list_all is_name_char ow"
    using a(1) by (auto simp: list_all_iff owner_is_name_char)
  then have "CHR '':'' \<notin> set ow"
    by (auto simp: list_all_iff name_char_simps)
  moreover have "CHR '':'' \<notin> set rp"
    using a(2) by (auto simp: list_all_iff name_char_simps)
  ultimately have "CHR '':'' \<notin> set s"
    unfolding s by simp
  then show ?thesis by (rule includes_str_absent)
qed

lemma url_normalize_invalid_format:
  "url_normalize P input = Inl invalid_format \<longleftrightarrow> \<not> gitUrlSchema P input"
  by (auto simp: url_normalize_def Let_def invalid_format_def invalid_URL_def
        missing_owner_or_repo_def split: option.splits list.splits)








section \<open>C1: a bearer token of the wrong shape\<close>

text \<open>
  C1 says that a token starting with neither \<^verbatim>\<open>ghp_\<close> nor \<^verbatim>\<open>github_pat_\<close>
  makes the resolution fail with the token error and without a network call. The error
  is thrown at line 138, inside the \<^verbatim>\<open>try\<close> of line 114, and the \<^verbatim>\<open>catch\<close> of
  line 185 takes it: for every input that normalizes to a github reference and every
  non-empty token of the wrong shape, \<^verbatim>\<open>parse\<close> resolves with the reference and
  \<open>isPrivate = False\<close>, writes the token error on the console, and makes no network
  call. The test \<^verbatim>\<open>should handle invalid token format\<close> expects the rejection.
\<close>

theorem C1_invalid_token_absorbed:
  assumes "url_normalize P input = Inr r"
    and "provider (metadata r) = github"
    and "tok \<noteq> []"
    and "\<not> startsWith tok ''ghp_''"
    and "\<not> startsWith tok ''github_pat_''"
  shows "parse P input \<lparr>authToken = Some tok, githubApp = None\<rparr> =
         (Inr r,
          \<lparr>console =
             [console_error ''Failed to fetch repository metadata:''
                ''Invalid GitHub token format. Token should be a GitHub Personal Access Token.''],
           network = []\<rparr>)"
proof -
  have "authorize P \<lparr>authToken = Some tok, githubApp = None\<rparr> = (Inl invalid_token_format, [])"
    using assms(3-5) by (simp add: authorize_def)
  then have "fetchMetadata P (owner (metadata r)) (repo (metadata r))
               \<lparr>authToken = Some tok, githubApp = None\<rparr> = (Inl invalid_token_format, [])"
    by (simp add: fetchMetadata_def)
  from parse_absorbs [OF assms(1,2) this]
  show ?thesis by (simp add: catch_console_def invalid_token_format_def)
qed

theorem C1_invalid_token_absorbed_witness:
  "parse (test_platform (Inl NonError) (Inl NonError)) ''https://github.com/user/repo''
     \<lparr>authToken = Some ''invalid_token'', githubApp = None\<rparr> =
   (Inr \<lparr>metadata =
           \<lparr>owner = ''user'', repo = ''repo'', branch = None, commit = None,
            provider = github, isPrivate = False\<rparr>,
         normalizedUrl = ''https://github.com/user/repo'',
         originalUrl = ''https://github.com/user/repo''\<rparr>,
    \<lparr>console =
       [console_error ''Failed to fetch repository metadata:''
          ''Invalid GitHub token format. Token should be a GitHub Personal Access Token.''],
     network = []\<rparr>)"
proof -
  have n: "url_normalize (test_platform (Inl NonError) (Inl NonError))
             ''https://github.com/user/repo'' =
           Inr \<lparr>metadata =
                  \<lparr>owner = ''user'', repo = ''repo'', branch = None, commit = None,
                   provider = github, isPrivate = False\<rparr>,
                normalizedUrl = ''https://github.com/user/repo'',
                originalUrl = ''https://github.com/user/repo''\<rparr>"
    by code_simp
  show ?thesis
    by (rule C1_invalid_token_absorbed [OF n]) simp_all
qed

section \<open>C2: an App configuration without an installation\<close>



section \<open>C7: the field \<^verbatim>\<open>originalUrl\<close>\<close>

text \<open>
  C7 says that \<^verbatim>\<open>originalUrl\<close> is the caller's input verbatim, also for a
  shorthand. The parameter \<^verbatim>\<open>url\<close> is overwritten at line 76 and the result reads
  it at line 212: whenever \<^verbatim>\<open>parse\<close> resolves, \<^verbatim>\<open>originalUrl\<close> is the input if
  the input contains \<^verbatim>\<open>://\<close>, and the input behind \<^verbatim>\<open>https://github.com/\<close>
  otherwise.
\<close>

theorem C7_originalUrl_is_expanded:
  assumes "fst (parse P input options) = Inr r"
  shows "originalUrl r =
         (if includes_str input ''://'' then input else ''https://github.com/'' @ input)"
proof -
  from parse_InrD [OF assms] obtain r0 where
    n: "url_normalize P input = Inr r0" and
    r: "r = r0\<lparr>metadata := (metadata r0)\<lparr>isPrivate := isPrivate (metadata r)\<rparr>\<rparr>"
    by blast
  from url_normalize_InrD [OF n] have "originalUrl r0 = expand_shorthand input"
    by auto
  with r have "originalUrl r = expand_shorthand input"
    by (metis ParsedGitUrl.select_convs(3) ParsedGitUrl.surjective ParsedGitUrl.update_convs(1))
  then show ?thesis by (simp add: expand_shorthand_def)
qed

theorem C7_originalUrl_is_expanded_witness:
  "fst (parse (test_platform (Inl NonError)
                 (Inr (response_of 200 ''OK'' [] [] (Inr \<lparr>repo_private = False\<rparr>))))
          ''user/repo'' \<lparr>authToken = None, githubApp = None\<rparr>) =
     Inr \<lparr>metadata =
            \<lparr>owner = ''user'', repo = ''repo'', branch = None, commit = None,
             provider = github, isPrivate = False\<rparr>,
          normalizedUrl = ''https://github.com/user/repo'',
          originalUrl = ''https://github.com/user/repo''\<rparr> \<and>
   originalUrl
     \<lparr>metadata =
        \<lparr>owner = ''user'', repo = ''repo'', branch = None, commit = None,
         provider = github, isPrivate = False\<rparr>,
      normalizedUrl = ''https://github.com/user/repo'',
      originalUrl = ''https://github.com/user/repo''\<rparr> = ''https://github.com/'' @ ''user/repo''"
proof -
  have h: "fst (parse (test_platform (Inl NonError)
                 (Inr (response_of 200 ''OK'' [] [] (Inr \<lparr>repo_private = False\<rparr>))))
          ''user/repo'' \<lparr>authToken = None, githubApp = None\<rparr>) =
     Inr \<lparr>metadata =
            \<lparr>owner = ''user'', repo = ''repo'', branch = None, commit = None,
             provider = github, isPrivate = False\<rparr>,
          normalizedUrl = ''https://github.com/user/repo'',
          originalUrl = ''https://github.com/user/repo''\<rparr>"
    by code_simp
  from C7_originalUrl_is_expanded [OF h] h show ?thesis by simp
qed


section \<open>C8: provider detection\<close>

text \<open>
  C8: once the \<^verbatim>\<open>URL\<close> constructor has accepted the reference and the path has an
  owner and a repository, normalization succeeds and \<^verbatim>\<open>parse\<close> resolves whatever
  the host is. The provider is the first of github, gitlab, bitbucket whose pattern
  occurs in the host name, and github when none occurs; the host \<^verbatim>\<open>gitlab.com\<close>
  gives gitlab and the host \<^verbatim>\<open>bitbucket.org\<close> gives bitbucket.
\<close>

theorem C8_provider_detection:
  assumes "gitUrlSchema P input"
    and "newURL P (expand_shorthand input) = Some urlObj"
    and "filter (\<lambda>s. s \<noteq> []) (split_str (pathname urlObj) CHR ''/'') = ow # rp # rest"
    and "replace_git_suffix rp \<noteq> []"
  shows "\<exists>r b. url_normalize P input = Inr r \<and>
           fst (parse P input options) = Inr (r\<lparr>metadata := (metadata r)\<lparr>isPrivate := b\<rparr>\<rparr>) \<and>
           provider (metadata r) =
             (if includes_str (hostname urlObj) ''github.com'' then github
              else if includes_str (hostname urlObj) ''gitlab.com'' then gitlab
              else if includes_str (hostname urlObj) ''bitbucket.org'' then bitbucket
              else github) \<and>
           (hostname urlObj = ''gitlab.com'' \<longrightarrow> provider (metadata r) = gitlab) \<and>
           (hostname urlObj = ''bitbucket.org'' \<longrightarrow> provider (metadata r) = bitbucket)"
proof -
  let ?r = "\<lparr>metadata =
                  \<lparr>owner = ow, repo = replace_git_suffix rp,
                   branch = match_BRANCH_PATTERN (expand_shorthand input),
                   commit = match_COMMIT_PATTERN (expand_shorthand input),
                   provider = detect_provider (hostname urlObj), isPrivate = False\<rparr>,
                normalizedUrl =
                  ''https://'' @ hostname urlObj @ ''/'' @ ow @ ''/'' @ replace_git_suffix rp,
                originalUrl = expand_shorthand input\<rparr>"
  have n: "url_normalize P input = Inr ?r"
    by (rule url_normalize_InrI [OF assms])
  from parse_resolves [OF n] obtain b where
    p: "fst (parse P input options) = Inr (?r\<lparr>metadata := (metadata ?r)\<lparr>isPrivate := b\<rparr>\<rparr>)"
    by blast
  have c: "provider (metadata ?r) =
             (if includes_str (hostname urlObj) ''github.com'' then github
              else if includes_str (hostname urlObj) ''gitlab.com'' then gitlab
              else if includes_str (hostname urlObj) ''bitbucket.org'' then bitbucket
              else github)"
    by (simp add: detect_provider_chain)
  have g: "hostname urlObj = ''gitlab.com'' \<longrightarrow> provider (metadata ?r) = gitlab"
    by (simp add: detect_provider_chain)
  have bb: "hostname urlObj = ''bitbucket.org'' \<longrightarrow> provider (metadata ?r) = bitbucket"
    by (simp add: detect_provider_chain)
  from n p c g bb show ?thesis by blast
qed

theorem C8_provider_detection_witness:
  "(\<exists>r. url_normalize (test_platform (Inl NonError) (Inl NonError))
           ''https://gitlab.com/user/repo'' = Inr r \<and> provider (metadata r) = gitlab) \<and>
   (\<exists>r. url_normalize (test_platform (Inl NonError) (Inl NonError))
           ''https://example.com/user/repo'' = Inr r \<and> provider (metadata r) = github)"
proof -
  let ?P = "test_platform (Inl NonError) (Inl NonError)"
  have s1: "gitUrlSchema ?P ''https://gitlab.com/user/repo''" by code_simp
  have u1: "newURL ?P (expand_shorthand ''https://gitlab.com/user/repo'') =
              Some \<lparr>hostname = ''gitlab.com'', pathname = ''/user/repo''\<rparr>" by code_simp
  have f1: "filter (\<lambda>s. s \<noteq> [])
              (split_str (pathname \<lparr>hostname = ''gitlab.com'', pathname = ''/user/repo''\<rparr>) CHR ''/'')
            = ''user'' # ''repo'' # []" by code_simp
  have g1: "replace_git_suffix ''repo'' \<noteq> []" by code_simp
  have s2: "gitUrlSchema ?P ''https://example.com/user/repo''" by code_simp
  have u2: "newURL ?P (expand_shorthand ''https://example.com/user/repo'') =
              Some \<lparr>hostname = ''example.com'', pathname = ''/user/repo''\<rparr>" by code_simp
  have f2: "filter (\<lambda>s. s \<noteq> [])
              (split_str (pathname \<lparr>hostname = ''example.com'', pathname = ''/user/repo''\<rparr>) CHR ''/'')
            = ''user'' # ''repo'' # []" by code_simp
  from C8_provider_detection [OF s1 u1 f1 g1] have a: "\<exists>r. url_normalize ?P
           ''https://gitlab.com/user/repo'' = Inr r \<and> provider (metadata r) = gitlab"
    by auto
  from C8_provider_detection [OF s2 u2 f2 g1] have b: "\<exists>r. url_normalize ?P
           ''https://example.com/user/repo'' = Inr r \<and> provider (metadata r) = github"
    by auto
  from a b show ?thesis by blast
qed

section \<open>C9: the host patterns are substring tests\<close>





section \<open>C10: branch and commit are searched in the whole URL\<close>

text \<open>
  C10: the two patterns are searched in the whole URL string after the shorthand
  expansion, so the owner and repository positions can match. For every non-empty
  token \<open>x\<close> of word characters, dots and hyphens, the shorthand \<^verbatim>\<open>tree/x\<close> gives
  the owner \<^verbatim>\<open>tree\<close>, the repository \<open>x\<close> without its \<^verbatim>\<open>.git\<close> suffix, and the
  branch \<open>x\<close>; for every non-empty run \<open>h\<close> of hexadecimal digits, the shorthand
  \<^verbatim>\<open>commit/h\<close> gives the owner \<^verbatim>\<open>commit\<close>, the repository \<open>h\<close> and the commit
  \<open>h\<close>. The \<^verbatim>\<open>URL\<close> constructor is taken to read the two expanded URLs as written.
\<close>

theorem C10_spurious_branch_and_commit:
  assumes "x \<noteq> []" and "list_all is_name_char x" and "replace_git_suffix x \<noteq> []"
    and "newURL P (''https://github.com/tree/'' @ x) =
           Some \<lparr>hostname = ''github.com'', pathname = ''/tree/'' @ x\<rparr>"
    and "h \<noteq> []" and "list_all is_hex_char h"
    and "newURL P (''https://github.com/commit/'' @ h) =
           Some \<lparr>hostname = ''github.com'', pathname = ''/commit/'' @ h\<rparr>"
  shows "(\<exists>r. url_normalize P (''tree/'' @ x) = Inr r \<and>
              owner (metadata r) = ''tree'' \<and>
              repo (metadata r) = replace_git_suffix x \<and>
              branch (metadata r) = Some x) \<and>
         (\<exists>r. url_normalize P (''commit/'' @ h) = Inr r \<and>
              owner (metadata r) = ''commit'' \<and>
              repo (metadata r) = h \<and>
              commit (metadata r) = Some h)"
proof -
  have hn: "list_all is_name_char h"
    using assms(6) by (auto simp: list_all_iff hex_is_name_char)
  have e1: "expand_shorthand (''tree/'' @ x) = ''https://github.com/tree/'' @ x"
    using name_chars_no_scheme [OF assms(2)] by (simp add: expand_shorthand_def)
  have e2: "expand_shorthand (''commit/'' @ h) = ''https://github.com/commit/'' @ h"
    using name_chars_no_scheme [OF hn] by (simp add: expand_shorthand_def)
  have s1: "gitUrlSchema P (''tree/'' @ x)"
    using name_chars_no_scheme [OF assms(2)] shorthand_tree [OF assms(1,2)]
    by (simp add: gitUrlSchema_def)
  have s2: "gitUrlSchema P (''commit/'' @ h)"
    using name_chars_no_scheme [OF hn] shorthand_commit [OF assms(5) hn]
    by (simp add: gitUrlSchema_def)
  have u1: "newURL P (expand_shorthand (''tree/'' @ x)) =
              Some \<lparr>hostname = ''github.com'', pathname = ''/tree/'' @ x\<rparr>"
    unfolding e1 by (rule assms(4))
  have u2: "newURL P (expand_shorthand (''commit/'' @ h)) =
              Some \<lparr>hostname = ''github.com'', pathname = ''/commit/'' @ h\<rparr>"
    unfolding e2 by (rule assms(7))
  have f1: "filter (\<lambda>s. s \<noteq> [])
              (split_str (pathname \<lparr>hostname = ''github.com'', pathname = ''/tree/'' @ x\<rparr>)
                 CHR ''/'') = ''tree'' # x # []"
    using name_chars_one_segment [OF assms(2)] assms(1) by simp
  have f2: "filter (\<lambda>s. s \<noteq> [])
              (split_str (pathname \<lparr>hostname = ''github.com'', pathname = ''/commit/'' @ h\<rparr>)
                 CHR ''/'') = ''commit'' # h # []"
    using name_chars_one_segment [OF hn] assms(5) by simp
  have k: "replace_git_suffix h = h"
    by (rule hex_no_git_suffix [OF assms(6)])
  have g2: "replace_git_suffix h \<noteq> []"
    unfolding k by (rule assms(5))
  from url_normalize_fields [OF s1 u1 f1 assms(3)] obtain r1 where
    n1: "url_normalize P (''tree/'' @ x) = Inr r1" and
    o1: "owner (metadata r1) = ''tree''" and
    p1: "repo (metadata r1) = replace_git_suffix x" and
    b1: "branch (metadata r1) = match_BRANCH_PATTERN (expand_shorthand (''tree/'' @ x))"
    by blast
  have b1': "branch (metadata r1) = Some x"
    using b1 unfolding e1 branch_of_tree [OF assms(1,2)] .
  from url_normalize_fields [OF s2 u2 f2 g2] obtain r2 where
    n2: "url_normalize P (''commit/'' @ h) = Inr r2" and
    o2: "owner (metadata r2) = ''commit''" and
    p2: "repo (metadata r2) = replace_git_suffix h" and
    c2: "commit (metadata r2) = match_COMMIT_PATTERN (expand_shorthand (''commit/'' @ h))"
    by blast
  have c2': "commit (metadata r2) = Some h"
    using c2 unfolding e2 commit_of_commit [OF assms(5,6)] .
  have p2': "repo (metadata r2) = h"
    using p2 unfolding k .
  from n1 o1 p1 b1' n2 o2 p2' c2' show ?thesis by blast
qed

theorem C10_spurious_branch_and_commit_witness:
  "(\<exists>r. url_normalize (test_platform (Inl NonError) (Inl NonError)) ''tree/x'' = Inr r \<and>
        owner (metadata r) = ''tree'' \<and> repo (metadata r) = ''x'' \<and>
        branch (metadata r) = Some ''x'') \<and>
   (\<exists>r. url_normalize (test_platform (Inl NonError) (Inl NonError)) ''commit/abc123'' = Inr r \<and>
        owner (metadata r) = ''commit'' \<and> repo (metadata r) = ''abc123'' \<and>
        commit (metadata r) = Some ''abc123'')"
proof -
  let ?P = "test_platform (Inl NonError) (Inl NonError)"
  have 1: "''x'' \<noteq> []" by simp
  have 2: "list_all is_name_char ''x''" by code_simp
  have 3: "replace_git_suffix ''x'' \<noteq> []" by code_simp
  have 4: "newURL ?P (''https://github.com/tree/'' @ ''x'') =
           Some \<lparr>hostname = ''github.com'', pathname = ''/tree/'' @ ''x''\<rparr>" by code_simp
  have 5: "''abc123'' \<noteq> []" by simp
  have 6: "list_all is_hex_char ''abc123''" by code_simp
  have 7: "newURL ?P (''https://github.com/commit/'' @ ''abc123'') =
           Some \<lparr>hostname = ''github.com'', pathname = ''/commit/'' @ ''abc123''\<rparr>"
    by code_simp
  have 8: "replace_git_suffix ''x'' = ''x''" by code_simp
  from C10_spurious_branch_and_commit [OF 1 2 3 4 5 6 7] 8
  show ?thesis by simp
qed



section \<open>C3: a failed metadata request\<close>

text \<open>
  C3 as amended: for every input that normalizes to a github reference, when the
  authentication step yields a header value (or none) and \<^verbatim>\<open>fetch\<close> answers with a
  status outside 200 to 299, \<^verbatim>\<open>parse\<close> does not reject: it resolves with the whole
  reference and \<open>isPrivate = False\<close>, after the one metadata request, and the failure
  is one line on the console, written by \<^verbatim>\<open>console.warn\<close> when its message contains
  \<^verbatim>\<open>rate limit exceeded\<close> and by \<^verbatim>\<open>console.error\<close> otherwise.
\<close>

theorem C3_fetch_failure_absorbed:
  assumes "url_normalize P input = Inr r"
    and "provider (metadata r) = github"
    and "authorize P options = (Inr authorization, calls)"
    and "fetch P (metadata_request (owner (metadata r)) (repo (metadata r)) authorization) =
           Inr response"
    and "\<not> ok response"
  shows "\<exists>e. checkResponse P (owner (metadata r)) (repo (metadata r)) response = Inl e \<and>
             isPrivate (metadata r) = False \<and>
             parse P input options =
               (Inr r,
                \<lparr>console =
                   [if includes_str (message e) ''rate limit exceeded''
                    then console_warn (message e)
                    else console_error ''Failed to fetch repository metadata:'' (message e)],
                 network = calls @ [FetchCall (metadata_request (owner (metadata r))
                                                 (repo (metadata r)) authorization)]\<rparr>)"
proof -
  from checkResponse_throws [OF assms(5)] obtain e where
    c: "checkResponse P (owner (metadata r)) (repo (metadata r)) response = Inl e" and
    e: "is_Error e"
    by blast
  have p: "isPrivate (metadata r) = False"
    using url_normalize_InrD [OF assms(1)] by auto
  from parse_fetch_failure [OF assms(1-4) c] e
  have "parse P input options =
               (Inr r,
                \<lparr>console =
                   [if includes_str (message e) ''rate limit exceeded''
                    then console_warn (message e)
                    else console_error ''Failed to fetch repository metadata:'' (message e)],
                 network = calls @ [FetchCall (metadata_request (owner (metadata r))
                                                 (repo (metadata r)) authorization)]\<rparr>)"
    by (simp add: catch_console_def)
  with c p show ?thesis by blast
qed


text \<open>
  C3 as stated calls the report a warning in every case. A 404 response is reported by
  \<^verbatim>\<open>console.error\<close>.
\<close>

theorem C3_not_found_is_console_error:
  "parse (test_platform (Inl NonError)
            (Inr (response_of 404 ''Not Found'' [] ''Not Found'' (Inl (SyntaxError [])))))
     ''https://github.com/user/nonexistent'' \<lparr>authToken = None, githubApp = None\<rparr> =
   (Inr \<lparr>metadata =
           \<lparr>owner = ''user'', repo = ''nonexistent'', branch = None, commit = None,
            provider = github, isPrivate = False\<rparr>,
         normalizedUrl = ''https://github.com/user/nonexistent'',
         originalUrl = ''https://github.com/user/nonexistent''\<rparr>,
    \<lparr>console =
       [console_error ''Failed to fetch repository metadata:''
          ''Repository not found: user/nonexistent''],
     network =
       [FetchCall \<lparr>req_url = ''https://api.github.com/repos/user/nonexistent'',
                   req_headers = [(''Accept'', ''application/vnd.github.v3+json'')]\<rparr>]\<rparr>)"
proof -
  let ?resp = "response_of 404 ''Not Found'' [] ''Not Found'' (Inl (SyntaxError []))"
  let ?P = "test_platform (Inl NonError) (Inr ?resp)"
  let ?r = "\<lparr>metadata =
           \<lparr>owner = ''user'', repo = ''nonexistent'', branch = None, commit = None,
            provider = github, isPrivate = False\<rparr>,
         normalizedUrl = ''https://github.com/user/nonexistent'',
         originalUrl = ''https://github.com/user/nonexistent''\<rparr>"
  have n: "url_normalize ?P ''https://github.com/user/nonexistent'' = Inr ?r"
    by code_simp
  have g: "provider (metadata ?r) = github" by simp
  have a: "authorize ?P \<lparr>authToken = None, githubApp = None\<rparr> = (Inr None, [])"
    by (simp add: authorize_def)
  have f: "fetch ?P (metadata_request (owner (metadata ?r)) (repo (metadata ?r)) None) = Inr ?resp"
    by (simp add: test_platform_def)
  have c: "checkResponse ?P (owner (metadata ?r)) (repo (metadata ?r)) ?resp =
             Inl (Error ''Repository not found: user/nonexistent'')"
    by (simp add: checkResponse_def ok_def response_of_def)
  have i: "\<not> includes_str ''Repository not found: user/nonexistent'' ''rate limit exceeded''"
    by code_simp
  from i parse_fetch_failure [OF n g a f c]
  show ?thesis by (simp add: metadata_request_def catch_console_def)
qed

theorem C3_fetch_failure_absorbed_witness:
  "parse (test_platform (Inl NonError)
            (Inr (response_of 403 ''Forbidden''
                    [(''x-ratelimit-remaining'', ''0''), (''x-ratelimit-reset'', ''1700000000'')]
                    ''API rate limit exceeded'' (Inl (SyntaxError [])))))
     ''https://github.com/user/repo'' \<lparr>authToken = None, githubApp = None\<rparr> =
   (Inr \<lparr>metadata =
           \<lparr>owner = ''user'', repo = ''repo'', branch = None, commit = None,
            provider = github, isPrivate = False\<rparr>,
         normalizedUrl = ''https://github.com/user/repo'',
         originalUrl = ''https://github.com/user/repo''\<rparr>,
    \<lparr>console =
       [console_warn ''GitHub API rate limit exceeded. Reset at 2023-11-14T22:13:20.000Z''],
     network =
       [FetchCall \<lparr>req_url = ''https://api.github.com/repos/user/repo'',
                   req_headers = [(''Accept'', ''application/vnd.github.v3+json'')]\<rparr>]\<rparr>)"
proof -
  let ?resp = "response_of 403 ''Forbidden''
                    [(''x-ratelimit-remaining'', ''0''), (''x-ratelimit-reset'', ''1700000000'')]
                    ''API rate limit exceeded'' (Inl (SyntaxError []))"
  let ?P = "test_platform (Inl NonError) (Inr ?resp)"
  let ?r = "\<lparr>metadata =
           \<lparr>owner = ''user'', repo = ''repo'', branch = None, commit = None,
            provider = github, isPrivate = False\<rparr>,
         normalizedUrl = ''https://github.com/user/repo'',
         originalUrl = ''https://github.com/user/repo''\<rparr>"
  have n: "url_normalize ?P ''https://github.com/user/repo'' = Inr ?r"
    by code_simp
  have g: "provider (metadata ?r) = github" by simp
  have a: "authorize ?P \<lparr>authToken = None, githubApp = None\<rparr> = (Inr None, [])"
    by (simp add: authorize_def)
  have f: "fetch ?P (metadata_request (owner (metadata ?r)) (repo (metadata ?r)) None) = Inr ?resp"
    by (simp add: test_platform_def)
  have k: "\<not> ok ?resp" by (simp add: ok_def response_of_def)
  have c: "checkResponse ?P (owner (metadata ?r)) (repo (metadata ?r)) ?resp =
             Inl (Error ''GitHub API rate limit exceeded. Reset at 2023-11-14T22:13:20.000Z'')"
    by (simp add: checkResponse_def ok_def response_of_def test_platform_def ISO_example)
  have i: "includes_str ''GitHub API rate limit exceeded. Reset at 2023-11-14T22:13:20.000Z''
             ''rate limit exceeded''"
    by code_simp
  from C3_fetch_failure_absorbed [OF n g a f k] c i
  show ?thesis by (simp add: metadata_request_def)
qed


section \<open>C4: what a failed response makes \<^verbatim>\<open>parse\<close> throw\<close>





section \<open>C5: when the format is invalid\<close>

text \<open>
  C5 as amended: normalization fails with the schema's error exactly when the input
  is neither an absolute URL (it contains \<^verbatim>\<open>://\<close> and the \<^verbatim>\<open>URL\<close> constructor
  accepts it) nor a shorthand \<open>owner/repo\<close> in which the owner is a non-empty run of
  word characters and hyphens and the repository a non-empty run of word characters,
  dots and hyphens.
\<close>

theorem C5_invalid_format:
  "url_normalize P input = Inl invalid_format \<longleftrightarrow>
     \<not> (includes_str input ''://'' \<and> (\<exists>u. newURL P input = Some u)) \<and>
     \<not> (\<exists>ow rp. input = ow @ ''/'' @ rp \<and> ow \<noteq> [] \<and> rp \<noteq> [] \<and>
                 list_all is_owner_char ow \<and> list_all is_name_char rp)"
proof -
  have "gitUrlSchema P input \<longleftrightarrow>
          (includes_str input ''://'' \<and> (\<exists>u. newURL P input = Some u)) \<or>
          shorthand_test input"
    using shorthand_no_scheme [of input]
    by (auto simp: gitUrlSchema_def split: option.splits)
  then show ?thesis
    unfolding url_normalize_invalid_format shorthand_test_iff by blast
qed

theorem C5_invalid_format_witness:
  "url_normalize (test_platform (Inl NonError) (Inl NonError)) ''user/repo'' \<noteq> Inl invalid_format"
proof -
  have "''user/repo'' = ''user'' @ ''/'' @ ''repo'' \<and> ''user'' \<noteq> [] \<and> ''repo'' \<noteq> [] \<and>
        list_all is_owner_char ''user'' \<and> list_all is_name_char ''repo''"
    by code_simp
  then have "\<exists>ow rp. ''user/repo'' = ow @ ''/'' @ rp \<and> ow \<noteq> [] \<and> rp \<noteq> [] \<and>
        list_all is_owner_char ow \<and> list_all is_name_char rp"
    by blast
  with C5_invalid_format [of "test_platform (Inl NonError) (Inl NonError)" "''user/repo''"]
  show ?thesis by blast
qed

text \<open>
  C5 as stated lets both tokens contain dots. The first class of the pattern is
  \<^verbatim>\<open>[\w-]\<close>: a shorthand whose owner contains a dot is rejected.
\<close>

theorem C5_dotted_owner_rejected:
  "''a.b/repo'' = ''a.b'' @ ''/'' @ ''repo'' \<and>
   list_all is_name_char ''a.b'' \<and> list_all is_name_char ''repo'' \<and>
   \<not> includes_str ''a.b/repo'' ''://'' \<and>
   url_normalize (test_platform (Inl NonError) (Inl NonError)) ''a.b/repo'' = Inl invalid_format"
  by code_simp


section \<open>C6: normalizing a canonical URL\<close>






end
